theory Spec2Isabelle
  imports Main "HOL-Library.AList"
begin

section \<open>Python values\<close>

text \<open>
  The module \<^verbatim>\<open>spid_cie_oidc/entity/statements.py\<close> works on decoded JSON documents
  (token headers and payloads). A decoded document is a Python value built from
  \<^verbatim>\<open>None\<close>, booleans, integers, strings, lists and dicts. A dict is kept as an
  association list in insertion order; a decoded dict has pairwise distinct keys and
  lookup takes the first binding. Numbers with a fractional part are not represented.
\<close>

datatype json =
    JNull
  | JBool bool
  | JNum int
  | JStr string
  | JArr "json list"
  | JObj "(string \<times> json) list"

text \<open>
  The exceptions the module can raise: Python's built-in ones, \<^verbatim>\<open>UnknownKid\<close> of
  \<^verbatim>\<open>.exceptions\<close>, and whatever the collaborators in \<^verbatim>\<open>.jwtse\<close> and
  \<^verbatim>\<open>.http_client\<close> raise (\<open>External\<close>, with their message). All of them are
  subclasses of \<^verbatim>\<open>Exception\<close>.
\<close>

datatype error =
    KeyError
  | TypeError
  | AttributeError
  | ValueError
  | IndexError
  | UnboundLocalError
  | NotImplementedError
  | UnknownKid
  | External string

definition bindE :: "error + 'a \<Rightarrow> ('a \<Rightarrow> error + 'b) \<Rightarrow> error + 'b" where
  "bindE m f = (case m of Inl e \<Rightarrow> Inl e | Inr x \<Rightarrow> f x)"

fun mapE :: "('a \<Rightarrow> error + 'b) \<Rightarrow> 'a list \<Rightarrow> error + 'b list" where
  "mapE f [] = Inr []"
| "mapE f (x # xs) = bindE (f x) (\<lambda>y. bindE (mapE f xs) (\<lambda>ys. Inr (y # ys)))"

subsection \<open>Operations of the Python data model\<close>

text \<open>\<^verbatim>\<open>a == b\<close>: structural, a boolean equals the integer 0 or 1, dicts compare
  without regard to order.\<close>

fun py_eq :: "json \<Rightarrow> json \<Rightarrow> bool" where
  "py_eq JNull JNull = True"
| "py_eq (JBool a) (JBool b) = (a = b)"
| "py_eq (JBool a) (JNum n) = (n = (if a then 1 else 0))"
| "py_eq (JNum n) (JBool a) = (n = (if a then 1 else 0))"
| "py_eq (JNum m) (JNum n) = (m = n)"
| "py_eq (JStr s) (JStr t) = (s = t)"
| "py_eq (JArr xs) (JArr ys) = list_all2 py_eq xs ys"
| "py_eq (JObj xs) (JObj ys) =
     (length xs = length ys \<and>
      (\<forall>kv \<in> set xs. case map_of ys (fst kv) of None \<Rightarrow> False | Some w \<Rightarrow> py_eq (snd kv) w))"
| "py_eq _ _ = False"

text \<open>\<^verbatim>\<open>bool(x)\<close>, as \<^verbatim>\<open>or\<close> and \<^verbatim>\<open>if\<close> test it.\<close>

fun py_truthy :: "json \<Rightarrow> bool" where
  "py_truthy JNull = False"
| "py_truthy (JBool b) = b"
| "py_truthy (JNum n) = (n \<noteq> 0)"
| "py_truthy (JStr s) = (s \<noteq> [])"
| "py_truthy (JArr xs) = (xs \<noteq> [])"
| "py_truthy (JObj kvs) = (kvs \<noteq> [])"

text \<open>\<^verbatim>\<open>x.get(k)\<close>: only a dict has the method; a missing key gives \<^verbatim>\<open>None\<close>.\<close>

fun py_get :: "json \<Rightarrow> string \<Rightarrow> error + json" where
  "py_get (JObj kvs) k = Inr (case map_of kvs k of None \<Rightarrow> JNull | Some v \<Rightarrow> v)"
| "py_get _ k = Inl AttributeError"

text \<open>\<^verbatim>\<open>x[k]\<close> with a string \<open>k\<close>: \<^verbatim>\<open>KeyError\<close> on a dict without the key,
  \<^verbatim>\<open>TypeError\<close> on every other value.\<close>

fun py_item :: "json \<Rightarrow> string \<Rightarrow> error + json" where
  "py_item (JObj kvs) k = (case map_of kvs k of None \<Rightarrow> Inl KeyError | Some v \<Rightarrow> Inr v)"
| "py_item _ k = Inl TypeError"

text \<open>\<^verbatim>\<open>x[i]\<close> with a non-negative integer \<open>i\<close>.\<close>

fun py_at :: "json \<Rightarrow> nat \<Rightarrow> error + json" where
  "py_at (JArr xs) i = (if i < length xs then Inr (xs ! i) else Inl IndexError)"
| "py_at (JStr s) i = (if i < length s then Inr (JStr [s ! i]) else Inl IndexError)"
| "py_at (JObj kvs) i = Inl KeyError"
| "py_at _ i = Inl TypeError"

text \<open>\<^verbatim>\<open>for i in x\<close>: the elements of a list, the characters of a string, the keys
  of a dict.\<close>

fun py_iter :: "json \<Rightarrow> error + json list" where
  "py_iter (JArr xs) = Inr xs"
| "py_iter (JStr s) = Inr (map (\<lambda>c. JStr [c]) s)"
| "py_iter (JObj kvs) = Inr (map (\<lambda>kv. JStr (fst kv)) kvs)"
| "py_iter _ = Inl TypeError"

text \<open>\<^verbatim>\<open>x in xs\<close> and \<^verbatim>\<open>xs.index(x)\<close> on a list.\<close>

definition py_in :: "json \<Rightarrow> json list \<Rightarrow> bool" where
  "py_in x xs = list_ex (\<lambda>y. py_eq y x) xs"

fun py_index :: "json list \<Rightarrow> json \<Rightarrow> error + nat" where
  "py_index [] x = Inl ValueError"
| "py_index (y # ys) x =
     (if py_eq y x then Inr 0 else bindE (py_index ys x) (\<lambda>i. Inr (Suc i)))"

text \<open>\<^verbatim>\<open>len(x)\<close>, and the slices \<^verbatim>\<open>x[:n]\<close> and \<^verbatim>\<open>x[n:]\<close>; a negative bound
  counts from the end. Lists and strings can be sliced, a dict cannot.\<close>

fun py_len :: "json \<Rightarrow> error + nat" where
  "py_len (JArr xs) = Inr (length xs)"
| "py_len (JStr s) = Inr (length s)"
| "py_len (JObj kvs) = Inr (length kvs)"
| "py_len _ = Inl TypeError"

definition slice_bound :: "nat \<Rightarrow> int \<Rightarrow> nat" where
  "slice_bound len n = (if n < 0 then nat (int len + n) else min len (nat n))"

fun py_slice_to :: "json \<Rightarrow> int \<Rightarrow> error + json" where
  "py_slice_to (JArr xs) n = Inr (JArr (take (slice_bound (length xs) n) xs))"
| "py_slice_to (JStr s) n = Inr (JStr (take (slice_bound (length s) n) s))"
| "py_slice_to _ n = Inl TypeError"

fun py_slice_from :: "json \<Rightarrow> int \<Rightarrow> error + json" where
  "py_slice_from (JArr xs) n = Inr (JArr (drop (slice_bound (length xs) n) xs))"
| "py_slice_from (JStr s) n = Inr (JStr (drop (slice_bound (length s) n) s))"
| "py_slice_from _ n = Inl TypeError"

text \<open>\<^verbatim>\<open>sep.join(x)\<close>: every element must be a string.\<close>

fun join_strs :: "string \<Rightarrow> json list \<Rightarrow> error + string" where
  "join_strs sep [] = Inr []"
| "join_strs sep [JStr s] = Inr s"
| "join_strs sep (JStr s # x # xs) = bindE (join_strs sep (x # xs)) (\<lambda>r. Inr (s @ sep @ r))"
| "join_strs sep _ = Inl TypeError"

definition py_join :: "string \<Rightarrow> json \<Rightarrow> error + string" where
  "py_join sep x = bindE (py_iter x) (join_strs sep)"

text \<open>The strings \<open>xs\<close> with \<open>sep\<close> between them: what \<^verbatim>\<open>sep.join\<close> returns
  on a list of strings.\<close>

fun separated :: "string \<Rightarrow> string list \<Rightarrow> string" where
  "separated sep [] = []"
| "separated sep [x] = x"
| "separated sep (x # y # ys) = x @ sep @ separated sep (y # ys)"

text \<open>\<^verbatim>\<open>str(n)\<close> of an integer, as an f-string formats it.\<close>

definition digit_char :: "nat \<Rightarrow> char" where
  "digit_char d = char_of (48 + d)"

function show_nat :: "nat \<Rightarrow> string" where
  "show_nat n = (if n < 10 then [digit_char n] else show_nat (n div 10) @ [digit_char (n mod 10)])"
  by pat_completeness auto
termination
  by (relation "measure id") auto

declare show_nat.simps [simp del]

definition show_int :: "int \<Rightarrow> string" where
  "show_int i = (if i < 0 then CHR ''-'' # show_nat (nat (- i)) else show_nat (nat i))"

text \<open>
  \<^verbatim>\<open>d[k] = v\<close> on a dict: the key must be hashable (lists and dicts are not), and
  \<^verbatim>\<open>True\<close> and \<^verbatim>\<open>1\<close> (\<^verbatim>\<open>False\<close> and \<^verbatim>\<open>0\<close>) are the same key. An existing
  key keeps its place, a new one goes to the end.
\<close>

fun dict_key :: "json \<Rightarrow> error + json" where
  "dict_key (JArr xs) = Inl TypeError"
| "dict_key (JObj kvs) = Inl TypeError"
| "dict_key (JBool b) = Inr (JNum (if b then 1 else 0))"
| "dict_key k = Inr k"

definition dict_set :: "(json \<times> 'v) list \<Rightarrow> json \<Rightarrow> 'v \<Rightarrow> error + (json \<times> 'v) list" where
  "dict_set d k v = bindE (dict_key k) (\<lambda>k'. Inr (AList.update k' v d))"

section \<open>Collaborators and logging\<close>

text \<open>
  The functions imported from \<^verbatim>\<open>.jwtse\<close> and \<^verbatim>\<open>.http_client\<close> are parameters of
  the model: decoding a token's header and payload, verifying a token against one key,
  and fetching a batch of URLs (\<^verbatim>\<open>asyncio.run(http_get(urls, httpc_params))\<close>), which
  returns the response bodies.
\<close>

record env =
  unpad_jwt_head :: "string \<Rightarrow> error + json"
  unpad_jwt_payload :: "string \<Rightarrow> error + json"
  verify_jws :: "string \<Rightarrow> json \<Rightarrow> error + unit"
  http_get :: "json \<Rightarrow> json \<Rightarrow> error + string list"

text \<open>
  A log record is its level and the pieces of the f-string: literal text and
  interpolated values.
\<close>

datatype level = INFO | WARNING

datatype fragment = Lit string | Val json

type_synonym log = "(level \<times> fragment list) list"

section \<open>Module-level functions\<close>

definition OIDCFED_FEDERATION_WELLKNOWN_URL :: string where
  "OIDCFED_FEDERATION_WELLKNOWN_URL = ''.well-known/openid-federation''"

definition get_jwks :: "json \<Rightarrow> json \<Rightarrow> error + json" where
  "get_jwks jwt_payload httpc = py_get jwt_payload ''jwks''"

definition get_entity_statements :: "env \<Rightarrow> json \<Rightarrow> json \<Rightarrow> log \<times> (error + string list)" where
  "get_entity_statements e urls httpc =
     (let urls' = (case urls of JStr s \<Rightarrow> JArr [urls] | _ \<Rightarrow> urls) in
      case py_iter urls' of
        Inl err \<Rightarrow> ([], Inl err)
      | Inr us \<Rightarrow>
          (map (\<lambda>url. (INFO, [Lit ''Starting Entity Statement Request for '', Val url])) us,
           http_get e urls' httpc))"

text \<open>
  \<^verbatim>\<open>get_entity_configurations\<close> takes one subject or a list of subjects, each a
  string. \<^verbatim>\<open>subject[-1]\<close> raises \<^verbatim>\<open>IndexError\<close> on the empty string; the records
  logged before that stay logged.
\<close>

datatype subjects = Subject string | Subjects "string list"

fun configuration_urls :: "string list \<Rightarrow> log \<times> (error + string list)" where
  "configuration_urls [] = ([], Inr [])"
| "configuration_urls (s # ss) =
     (if s = [] then ([], Inl IndexError)
      else
        let subject = (if last s \<noteq> CHR ''/'' then s @ ''/'' else s);
            url = subject @ OIDCFED_FEDERATION_WELLKNOWN_URL;
            (lg, r) = configuration_urls ss
        in ((INFO, [Lit ''Starting Entity Configuration Request for '', Lit url]) # lg,
            bindE r (\<lambda>urls. Inr (url # urls))))"

definition get_entity_configurations ::
  "env \<Rightarrow> subjects \<Rightarrow> json \<Rightarrow> log \<times> (error + string list)" where
  "get_entity_configurations e subjs httpc =
     (let ss = (case subjs of Subject s \<Rightarrow> [s] | Subjects l \<Rightarrow> l);
          (lg, r) = configuration_urls ss
      in (lg, bindE r (\<lambda>urls. http_get e (JArr (map JStr urls)) httpc)))"

section \<open>The class EntityConfiguration\<close>

text \<open>
  "The self issued/signed statement of a federation entity". The attributes are the ones
  \<^verbatim>\<open>__init__\<close> sets. \<^verbatim>\<open>verified_superiors\<close> and \<^verbatim>\<open>failed_superiors\<close> receive
  entity configurations from \<^verbatim>\<open>get_superiors\<close> and statement payloads from
  \<^verbatim>\<open>validate_by_superior_statement\<close>, so their values are one or the other.
  \<^verbatim>\<open>verified_by_superiors\<close> receives the booleans \<^verbatim>\<open>validate_by_superiors\<close> stores.
\<close>

datatype entity_configuration = EC
  (jwt: string)
  (header: json)
  (payload: json)
  (sub: json)
  (jwks: json)
  (kids: "json list")
  (httpc_params: json)
  (filter_by_allowed_trust_marks: json)
  (trust_anchors_entity_confs: json)
  (trust_mark_issuers_entity_confs: json)
  (verified_superiors: "(json \<times> superior_entry) list")
  (failed_superiors: "(json \<times> superior_entry) list")
  (verified_by_superiors: "(json \<times> bool) list")
  (failed_by_superiors: "(json \<times> bool) list")
  (is_valid: bool)
and superior_entry =
    Configuration entity_configuration
  | Statement json

text \<open>Attribute assignment.\<close>

definition set_is_valid :: "bool \<Rightarrow> entity_configuration \<Rightarrow> entity_configuration" where
  "set_is_valid b c =
     EC (jwt c) (header c) (payload c) (sub c) (jwks c) (kids c) (httpc_params c)
        (filter_by_allowed_trust_marks c) (trust_anchors_entity_confs c)
        (trust_mark_issuers_entity_confs c) (verified_superiors c) (failed_superiors c)
        (verified_by_superiors c) (failed_by_superiors c) b"

definition set_verified_superiors ::
  "(json \<times> superior_entry) list \<Rightarrow> entity_configuration \<Rightarrow> entity_configuration" where
  "set_verified_superiors d c =
     EC (jwt c) (header c) (payload c) (sub c) (jwks c) (kids c) (httpc_params c)
        (filter_by_allowed_trust_marks c) (trust_anchors_entity_confs c)
        (trust_mark_issuers_entity_confs c) d (failed_superiors c)
        (verified_by_superiors c) (failed_by_superiors c) (is_valid c)"

definition set_failed_superiors ::
  "(json \<times> superior_entry) list \<Rightarrow> entity_configuration \<Rightarrow> entity_configuration" where
  "set_failed_superiors d c =
     EC (jwt c) (header c) (payload c) (sub c) (jwks c) (kids c) (httpc_params c)
        (filter_by_allowed_trust_marks c) (trust_anchors_entity_confs c)
        (trust_mark_issuers_entity_confs c) (verified_superiors c) d
        (verified_by_superiors c) (failed_by_superiors c) (is_valid c)"

definition set_verified_by_superiors ::
  "(json \<times> bool) list \<Rightarrow> entity_configuration \<Rightarrow> entity_configuration" where
  "set_verified_by_superiors d c =
     EC (jwt c) (header c) (payload c) (sub c) (jwks c) (kids c) (httpc_params c)
        (filter_by_allowed_trust_marks c) (trust_anchors_entity_confs c)
        (trust_mark_issuers_entity_confs c) (verified_superiors c) (failed_superiors c)
        d (failed_by_superiors c) (is_valid c)"

definition set_filter_by_allowed_trust_marks ::
  "json \<Rightarrow> entity_configuration \<Rightarrow> entity_configuration" where
  "set_filter_by_allowed_trust_marks f c =
     EC (jwt c) (header c) (payload c) (sub c) (jwks c) (kids c) (httpc_params c)
        f (trust_anchors_entity_confs c)
        (trust_mark_issuers_entity_confs c) (verified_superiors c) (failed_superiors c)
        (verified_by_superiors c) (failed_by_superiors c) (is_valid c)"

text \<open>The comprehension \<^verbatim>\<open>[i.get("kid") for i in jwks]\<close>.\<close>

definition kid_list :: "json \<Rightarrow> error + json list" where
  "kid_list ks = bindE (py_iter ks) (mapE (\<lambda>i. py_get i ''kid''))"

text \<open>\<^verbatim>\<open>__init__(self, jwt, httpc_params, filter_by_allowed_trust_marks,
  trust_anchors_entity_confs, trust_mark_issuers_entity_confs)\<close>: the new object, or the
  exception that leaves no object behind.\<close>

definition EntityConfiguration_init ::
  "env \<Rightarrow> string \<Rightarrow> json \<Rightarrow> json \<Rightarrow> json \<Rightarrow> json \<Rightarrow> error + entity_configuration" where
  "EntityConfiguration_init e tok httpc flt tas tmis =
     bindE (unpad_jwt_head e tok) (\<lambda>h.
     bindE (unpad_jwt_payload e tok) (\<lambda>p.
     bindE (py_item p ''sub'') (\<lambda>s.
     bindE (get_jwks p httpc) (\<lambda>ks.
     bindE (kid_list ks) (\<lambda>kds.
     Inr (EC tok h p s ks kds httpc flt tas tmis [] [] [] [] False))))))"

text \<open>\<^verbatim>\<open>validate_by_itself\<close>: returns \<^verbatim>\<open>True\<close> and sets \<^verbatim>\<open>is_valid\<close>, or raises;
  it has no path that returns \<^verbatim>\<open>False\<close>.\<close>

definition validate_by_itself ::
  "env \<Rightarrow> entity_configuration \<Rightarrow> error + (bool \<times> entity_configuration)" where
  "validate_by_itself e self =
     bindE (py_get (header self) ''kid'') (\<lambda>k.
     if \<not> py_in k (kids self) then Inl UnknownKid
     else
       bindE (py_item (header self) ''kid'') (\<lambda>hk.
       bindE (py_index (kids self) hk) (\<lambda>i.
       bindE (py_at (jwks self) i) (\<lambda>key.
       bindE (verify_jws e (jwt self) key) (\<lambda>_.
       Inr (True, set_is_valid True self))))))"

text \<open>\<^verbatim>\<open>get_valid_trust_marks\<close>: the body is \<^verbatim>\<open>raise NotImplementedError()\<close>.\<close>

definition get_valid_trust_marks :: "entity_configuration \<Rightarrow> error + bool" where
  "get_valid_trust_marks self = Inl NotImplementedError"

text \<open>
  \<^verbatim>\<open>get_superiors\<close>. The block under "apply limits if defined" gives the warning, if
  any, and the hints to fetch.
\<close>

definition apply_limits :: "json \<Rightarrow> int \<Rightarrow> error + (log \<times> json)" where
  "apply_limits authority_hints max_authority_hints =
     (if max_authority_hints = 0 then Inr ([], authority_hints)
      else
        bindE (py_slice_to authority_hints max_authority_hints) (\<lambda>kept.
        if py_eq authority_hints kept then Inr ([], authority_hints)
        else
          bindE (py_len authority_hints) (\<lambda>n.
          bindE (py_slice_from authority_hints max_authority_hints) (\<lambda>ignored.
          bindE (py_join '', '' ignored) (\<lambda>names.
          Inr ([(WARNING,
                 [Lit (''Found '' @ show_nat n @ '' but ''
                       @ ''authority maximum hints is set to '' @ show_int max_authority_hints
                       @ ''. '' @ ''the following authorities will be ignored: '' @ names)])],
               kept))))))"

text \<open>The loop \<^verbatim>\<open>for jwt in jwts\<close>: an exception leaves the loop with the entries
  stored so far.\<close>

fun superiors_loop ::
  "env \<Rightarrow> entity_configuration \<Rightarrow> string list \<Rightarrow> entity_configuration \<times> (error + unit)" where
  "superiors_loop e self [] = (self, Inr ())"
| "superiors_loop e self (tok # toks) =
     (case EntityConfiguration_init e tok (httpc_params self) (JArr []) (JArr []) (JArr []) of
        Inl err \<Rightarrow> (self, Inl err)
      | Inr ec \<Rightarrow>
          (case validate_by_itself e ec of
             Inl err \<Rightarrow> (self, Inl err)
           | Inr (ok, ec') \<Rightarrow>
               (case py_item (payload ec') ''sub'' of
                  Inl err \<Rightarrow> (self, Inl err)
                | Inr s \<Rightarrow>
                    (case dict_set (if ok then verified_superiors self else failed_superiors self)
                            s (Configuration ec') of
                       Inl err \<Rightarrow> (self, Inl err)
                     | Inr d \<Rightarrow>
                         superiors_loop e
                           (if ok then set_verified_superiors d self
                            else set_failed_superiors d self) toks))))"

text \<open>From \<^verbatim>\<open>jwts = get_entity_statements(authority_hints, self.httpc_params)\<close> to the
  \<^verbatim>\<open>return\<close>: the hints are fetched as they stand, in one batch.\<close>

definition fetch_superiors ::
  "env \<Rightarrow> entity_configuration \<Rightarrow> json \<Rightarrow>
   log \<times> entity_configuration \<times> (error + (json \<times> superior_entry) list)" where
  "fetch_superiors e self authority_hints =
     (case get_entity_statements e authority_hints (httpc_params self) of
        (lg, Inl err) \<Rightarrow> (lg, self, Inl err)
      | (lg, Inr jwts) \<Rightarrow>
          (case superiors_loop e self jwts of
             (self', Inl err) \<Rightarrow> (lg, self', Inl err)
           | (self', Inr _) \<Rightarrow> (lg, self', Inr (verified_superiors self'))))"

definition get_superiors ::
  "env \<Rightarrow> entity_configuration \<Rightarrow> json \<Rightarrow> int \<Rightarrow>
   log \<times> entity_configuration \<times> (error + (json \<times> superior_entry) list)" where
  "get_superiors e self authority_hints max_authority_hints =
     (case (if py_truthy authority_hints then Inr authority_hints
            else py_item (payload self) ''authority_hints'') of
        Inl err \<Rightarrow> ([], self, Inl err)
      | Inr hints \<Rightarrow>
          (case apply_limits hints max_authority_hints of
             Inl err \<Rightarrow> ([], self, Inl err)
           | Inr (lg1, hints') \<Rightarrow>
               (case fetch_superiors e self hints' of
                  (lg2, r) \<Rightarrow> (lg1 @ lg2, r))))"

text \<open>\<^verbatim>\<open>validate_descendant_statement\<close>: "jwt is a descendant entity statement issued
  by self". The message of \<^verbatim>\<open>UnknownKid\<close> reads \<^verbatim>\<open>self.header.get('kid')\<close>.\<close>

definition validate_descendant_statement ::
  "env \<Rightarrow> entity_configuration \<Rightarrow> string \<Rightarrow> error + bool" where
  "validate_descendant_statement e self tok =
     bindE (unpad_jwt_head e tok) (\<lambda>h.
     bindE (unpad_jwt_payload e tok) (\<lambda>_.
     bindE (py_get h ''kid'') (\<lambda>k.
     if \<not> py_in k (kids self)
     then bindE (py_get (header self) ''kid'') (\<lambda>_. Inl UnknownKid)
     else
       bindE (py_item h ''kid'') (\<lambda>hk.
       bindE (py_index (kids self) hk) (\<lambda>i.
       bindE (py_at (jwks self) i) (\<lambda>key.
       bindE (verify_jws e tok key) (\<lambda>_.
       Inr True)))))))"

text \<open>
  \<^verbatim>\<open>validate_by_superior_statement(self, jwt, ec)\<close>. The \<^verbatim>\<open>try\<close> block gives the
  binding of the local \<^verbatim>\<open>payload\<close> (none when decoding raised), the superior after
  its self-validation, and whether the block raised. The superior \<open>ec\<close> is an object
  other than \<open>self\<close>.
\<close>

definition try_block ::
  "env \<Rightarrow> entity_configuration \<Rightarrow> string \<Rightarrow> entity_configuration \<Rightarrow>
   json option \<times> entity_configuration \<times> (error + unit)" where
  "try_block e self tok ec =
     (case unpad_jwt_payload e tok of
        Inl err \<Rightarrow> (None, ec, Inl err)
      | Inr p \<Rightarrow>
          (case validate_by_itself e ec of
             Inl err \<Rightarrow> (Some p, ec, Inl err)
           | Inr (_, ec') \<Rightarrow>
               (Some p, ec',
                bindE (validate_descendant_statement e ec' tok) (\<lambda>_.
                bindE (get_jwks p (httpc_params self)) (\<lambda>ks.
                bindE (kid_list ks) (\<lambda>kds.
                bindE (py_item (header self) ''kid'') (\<lambda>hk.
                bindE (py_index kds hk) (\<lambda>i.
                bindE (py_at ks i) (\<lambda>key.
                verify_jws e (jwt self) key)))))))))"

definition validate_by_superior_statement ::
  "env \<Rightarrow> entity_configuration \<Rightarrow> string \<Rightarrow> entity_configuration \<Rightarrow>
   (error + bool) \<times> entity_configuration \<times> entity_configuration" where
  "validate_by_superior_statement e self tok ec =
     (case try_block e self tok ec of
        (bound, ec', r) \<Rightarrow>
          (let valid = (case r of Inl _ \<Rightarrow> False | Inr _ \<Rightarrow> True) in
           case bound of
             None \<Rightarrow> (Inl UnboundLocalError, self, ec')
           | Some p \<Rightarrow>
               (case py_item p ''iss'' of
                  Inl err \<Rightarrow> (Inl err, self, ec')
                | Inr iss \<Rightarrow>
                    (case dict_set (if valid then verified_superiors self
                                    else failed_superiors self) iss (Statement p) of
                       Inl err \<Rightarrow> (Inl err, self, ec')
                     | Inr d \<Rightarrow>
                         (Inr valid,
                          if valid then set_verified_superiors d self
                          else set_failed_superiors d self,
                          ec')))))"

text \<open>
  \<^verbatim>\<open>validate_by_superiors\<close>, over the configurations the loop iterates. The handler
  of \<^verbatim>\<open>KeyError\<close> logs the warning and then assigns into \<^verbatim>\<open>self.invalid_superiors\<close>,
  an attribute no method of the class creates: the assignment raises
  \<^verbatim>\<open>AttributeError\<close>. The result is the log, the subject and the outcome; the
  \<^verbatim>\<open>is_valid\<close> flag that self-validation sets on a superior stays with
  \<^verbatim>\<open>validate_by_superior_statement\<close>.
\<close>

fun validate_by_superiors ::
  "env \<Rightarrow> entity_configuration \<Rightarrow> entity_configuration list \<Rightarrow>
   log \<times> entity_configuration \<times> (error + (json \<times> bool) list)" where
  "validate_by_superiors e self [] = ([], self, Inr (verified_by_superiors self))"
| "validate_by_superiors e self (ec # ecs) =
     (case bindE (py_item (payload ec) ''metadata'') (\<lambda>m.
           bindE (py_item m ''federation_entity'') (\<lambda>f.
           py_item f ''federation_api_endpoint'')) of
        Inl KeyError \<Rightarrow>
          ([(WARNING,
             [Lit ''Missing federation_api_endpoint in federation_entity metadata for '',
              Val (sub self), Lit '' by '', Val (sub ec), Lit ''.''])],
           self, Inl AttributeError)
      | Inl err \<Rightarrow> ([], self, Inl err)
      | Inr fetch_api_url \<Rightarrow>
          (case get_entity_statements e (JArr [fetch_api_url]) (httpc_params self) of
             (lg1, Inl err) \<Rightarrow> (lg1, self, Inl err)
           | (lg1, Inr []) \<Rightarrow> (lg1, self, Inl IndexError)
           | (lg1, Inr (tok # _)) \<Rightarrow>
               (case validate_by_superior_statement e self tok ec of
                  (Inl err, self', _) \<Rightarrow> (lg1, self', Inl err)
                | (Inr b, self', _) \<Rightarrow>
                    (case dict_set (verified_by_superiors self') (sub ec) b of
                       Inl err \<Rightarrow> (lg1, self', Inl err)
                     | Inr d \<Rightarrow>
                         (case validate_by_superiors e (set_verified_by_superiors d self') ecs of
                            (lg2, r) \<Rightarrow> (lg1 @ lg2, r))))))"

section \<open>An example federation\<close>

text \<open>
  A small federation on which the functions are run: a leaf, two trust anchors (the
  second one issues a statement that vouches for a key the leaf does not sign with), a
  statement without \<^verbatim>\<open>iss\<close>, an
  entity whose header names a key it does not publish, an intermediate without
  federation metadata, an entity that publishes only \<^verbatim>\<open>jwks_uri\<close>, and a host that
  serves a configuration whose \<^verbatim>\<open>sub\<close> is the first trust anchor. Every string that
  is not in the table is a malformed token.
\<close>

definition key :: "string \<Rightarrow> json" where
  "key k = JObj [(''kid'', JStr k)]"

definition federation_entity :: "string \<Rightarrow> json" where
  "federation_entity url = JObj [(''federation_entity'', JObj [(''federation_api_endpoint'', JStr url)])]"

definition leaf_payload :: json where
  "leaf_payload =
     JObj [(''iss'', JStr ''https://leaf.example/''), (''sub'', JStr ''https://leaf.example/''),
           (''jwks'', JArr [key ''k1'']),
           (''authority_hints'', JArr [JStr ''https://ta.example/''])]"

definition ta_payload :: json where
  "ta_payload =
     JObj [(''iss'', JStr ''https://ta.example/''), (''sub'', JStr ''https://ta.example/''),
           (''jwks'', JArr [key ''ta1'']),
           (''metadata'', federation_entity ''https://ta.example/fetch'')]"

definition ta2_payload :: json where
  "ta2_payload =
     JObj [(''iss'', JStr ''https://ta2.example/''), (''sub'', JStr ''https://ta2.example/''),
           (''jwks'', JArr [key ''t2'']),
           (''metadata'', federation_entity ''https://ta2.example/fetch'')]"

definition stmt_payload :: json where
  "stmt_payload =
     JObj [(''iss'', JStr ''https://ta.example/''), (''sub'', JStr ''https://leaf.example/''),
           (''jwks'', JArr [key ''k1''])]"

definition stmt_other_key_payload :: json where
  "stmt_other_key_payload =
     JObj [(''iss'', JStr ''https://ta2.example/''), (''sub'', JStr ''https://leaf.example/''),
           (''jwks'', JArr [key ''k9''])]"

definition no_metadata_payload :: json where
  "no_metadata_payload =
     JObj [(''iss'', JStr ''https://im.example/''), (''sub'', JStr ''https://im.example/''),
           (''jwks'', JArr [key ''i1''])]"

definition rogue_payload :: json where
  "rogue_payload =
     JObj [(''iss'', JStr ''https://ta.example/''), (''sub'', JStr ''https://ta.example/''),
           (''jwks'', JArr [key ''r1''])]"

definition jwks_uri_claims :: "(string \<times> json) list" where
  "jwks_uri_claims =
     [(''iss'', JStr ''https://uri.example/''), (''sub'', JStr ''https://uri.example/''),
      (''jwks_uri'', JStr ''https://uri.example/jwks.json'')]"

definition example_tokens :: "(string \<times> json \<times> json) list" where
  "example_tokens =
    [(''leaf.jwt'', key ''k1'', leaf_payload),
     (''ta.jwt'', key ''ta1'', ta_payload),
     (''ta2.jwt'', key ''t2'', ta2_payload),
     (''stmt.jwt'', key ''ta1'', stmt_payload),
     (''stmt_other_key.jwt'', key ''t2'', stmt_other_key_payload),
     (''stmt_no_iss.jwt'', key ''ta1'',
      JObj [(''sub'', JStr ''https://leaf.example/''), (''jwks'', JArr [key ''k1''])]),
     (''unknown_kid.jwt'', key ''zz'',
      JObj [(''iss'', JStr ''https://bad.example/''), (''sub'', JStr ''https://bad.example/''),
            (''jwks'', JArr [key ''b1''])]),
     (''no_metadata.jwt'', key ''i1'', no_metadata_payload),
     (''rogue.jwt'', key ''r1'', rogue_payload),
     (''jwks_uri.jwt'', key ''u1'', JObj jwks_uri_claims)]"

definition example_signatures :: "(string \<times> json) list" where
  "example_signatures =
    [(''leaf.jwt'', key ''k1''), (''ta.jwt'', key ''ta1''), (''ta2.jwt'', key ''t2''),
     (''stmt.jwt'', key ''ta1''), (''stmt_other_key.jwt'', key ''t2''),
     (''stmt_no_iss.jwt'', key ''ta1''),
     (''no_metadata.jwt'', key ''i1''), (''rogue.jwt'', key ''r1'')]"

definition example_documents :: "(string \<times> string) list" where
  "example_documents =
    [(''https://ta.example/'', ''ta.jwt''),
     (''https://ta.example/fetch'', ''stmt.jwt''),
     (''https://ta2.example/fetch'', ''stmt_other_key.jwt''),
     (''https://bad.example/'', ''unknown_kid.jwt''),
     (''https://rogue.example/'', ''rogue.jwt'')]"

definition example_fetch :: "json \<Rightarrow> error + string" where
  "example_fetch url =
     (case url of
        JStr u \<Rightarrow> (case map_of example_documents u of
                     None \<Rightarrow> Inl (External ''fetch failed'')
                   | Some body \<Rightarrow> Inr body)
      | _ \<Rightarrow> Inl (External ''fetch failed''))"

definition example_env :: env where
  "example_env =
     \<lparr> unpad_jwt_head = (\<lambda>tok. case map_of example_tokens tok of
                            None \<Rightarrow> Inl (External ''malformed token'')
                          | Some hp \<Rightarrow> Inr (fst hp)),
       unpad_jwt_payload = (\<lambda>tok. case map_of example_tokens tok of
                            None \<Rightarrow> Inl (External ''malformed token'')
                          | Some hp \<Rightarrow> Inr (snd hp)),
       verify_jws = (\<lambda>tok k. if (tok, k) \<in> set example_signatures then Inr ()
                              else Inl (External ''bad signature'')),
       http_get = (\<lambda>urls httpc. bindE (py_iter urls) (mapE example_fetch)) \<rparr>"

text \<open>The objects \<^verbatim>\<open>EntityConfiguration(jwt)\<close> builds from the tokens of the table.\<close>

definition fresh :: "string \<Rightarrow> json \<Rightarrow> string \<Rightarrow> string \<Rightarrow> entity_configuration" where
  "fresh tok p s k =
     EC tok (key k) p (JStr s) (JArr [key k]) [JStr k] (JObj []) (JArr []) (JArr []) (JArr [])
        [] [] [] [] False"

definition example_leaf :: entity_configuration where
  "example_leaf = fresh ''leaf.jwt'' leaf_payload ''https://leaf.example/'' ''k1''"

definition example_ta :: entity_configuration where
  "example_ta = fresh ''ta.jwt'' ta_payload ''https://ta.example/'' ''ta1''"

definition example_ta2 :: entity_configuration where
  "example_ta2 = fresh ''ta2.jwt'' ta2_payload ''https://ta2.example/'' ''t2''"

definition example_no_metadata :: entity_configuration where
  "example_no_metadata = fresh ''no_metadata.jwt'' no_metadata_payload ''https://im.example/'' ''i1''"

definition example_rogue :: entity_configuration where
  "example_rogue = fresh ''rogue.jwt'' rogue_payload ''https://ta.example/'' ''r1''"

section \<open>Auxiliary facts\<close>

lemma bindE_simps [simp]:
  "bindE (Inl err) f = Inl err"
  "bindE (Inr x) f = f x"
  by (simp_all add: bindE_def)

lemma bindE_eq_Inr:
  "bindE m f = Inr y \<longleftrightarrow> (\<exists>x. m = Inr x \<and> f x = Inr y)"
  by (cases m) simp_all

lemma set_is_valid_sel [simp]:
  "payload (set_is_valid b c) = payload c"
  "verified_superiors (set_is_valid b c) = verified_superiors c"
  "failed_superiors (set_is_valid b c) = failed_superiors c"
  "is_valid (set_is_valid b c) = b"
  by (simp_all add: set_is_valid_def)

lemma set_verified_superiors_sel [simp]:
  "verified_superiors (set_verified_superiors d c) = d"
  "failed_superiors (set_verified_superiors d c) = failed_superiors c"
  "verified_by_superiors (set_verified_superiors d c) = verified_by_superiors c"
  "failed_by_superiors (set_verified_superiors d c) = failed_by_superiors c"
  "httpc_params (set_verified_superiors d c) = httpc_params c"
  by (simp_all add: set_verified_superiors_def)

lemma set_failed_superiors_sel [simp]:
  "verified_superiors (set_failed_superiors d c) = verified_superiors c"
  "failed_superiors (set_failed_superiors d c) = d"
  "verified_by_superiors (set_failed_superiors d c) = verified_by_superiors c"
  "failed_by_superiors (set_failed_superiors d c) = failed_by_superiors c"
  "httpc_params (set_failed_superiors d c) = httpc_params c"
  by (simp_all add: set_failed_superiors_def)

lemma validate_by_itself_Inr:
  assumes "validate_by_itself e c = Inr (b, c')"
  shows "b \<and> c' = set_is_valid True c"
  using assms
  by (auto simp: validate_by_itself_def bindE_eq_Inr split: if_splits)

lemma EntityConfiguration_init_Inr:
  assumes "EntityConfiguration_init e tok httpc flt tas tmis = Inr c"
  shows "\<exists>p s. unpad_jwt_payload e tok = Inr p \<and> py_item p ''sub'' = Inr s \<and> payload c = p"
  using assms
  by (auto simp: EntityConfiguration_init_def bindE_eq_Inr)

lemma dict_set_Inr:
  "dict_set d k v = Inr d' \<longleftrightarrow> (\<exists>k'. dict_key k = Inr k' \<and> d' = AList.update k' v d)"
  by (auto simp: dict_set_def bindE_eq_Inr)

lemma superiors_loop_failed_superiors:
  "failed_superiors (fst (superiors_loop e self jwts)) = failed_superiors self"
proof (induction jwts arbitrary: self)
  case Nil
  show ?case by simp
next
  case (Cons tok toks)
  show ?case
    by (auto simp: Cons.IH dict_set_Inr split: sum.splits dest!: validate_by_itself_Inr)
qed

lemma superiors_loop_keys:
  assumes "k \<in> fst ` set (verified_superiors (fst (superiors_loop e self jwts)))"
  shows "k \<in> fst ` set (verified_superiors self) \<or>
         (\<exists>tok \<in> set jwts. \<exists>p s. unpad_jwt_payload e tok = Inr p \<and>
            py_item p ''sub'' = Inr s \<and> dict_key s = Inr k)"
  using assms
proof (induction jwts arbitrary: self)
  case Nil
  then show ?case by simp
next
  case (Cons tok toks)
  show ?case
  proof (cases "EntityConfiguration_init e tok (httpc_params self) (JArr []) (JArr []) (JArr [])")
    case (Inl err)
    with Cons.prems show ?thesis by simp
  next
    case (Inr ec)
    then obtain p s where p: "unpad_jwt_payload e tok = Inr p" "py_item p ''sub'' = Inr s" "payload ec = p"
      using EntityConfiguration_init_Inr by blast
    show ?thesis
    proof (cases "validate_by_itself e ec")
      case (Inl err)
      with Inr Cons.prems show ?thesis by simp
    next
      case (Inr okc)
      obtain ok ec' where okc: "okc = (ok, ec')" by (cases okc)
      with Inr have v: "validate_by_itself e ec = Inr (ok, ec')" by simp
      from validate_by_itself_Inr[OF v] have ok: "ok" and ec': "ec' = set_is_valid True ec" by simp_all
      show ?thesis
      proof (cases "dict_key s")
        case (Inl err)
        with Cons.prems \<open>EntityConfiguration_init e tok _ _ _ _ = Inr ec\<close> v ok ec' p
        show ?thesis by (simp add: dict_set_def)
      next
        case (Inr k')
        let ?self = "set_verified_superiors (AList.update k' (Configuration ec') (verified_superiors self)) self"
        from Cons.prems \<open>EntityConfiguration_init e tok _ _ _ _ = Inr ec\<close> v ok ec' p Inr
        have "k \<in> fst ` set (verified_superiors (fst (superiors_loop e ?self toks)))"
          by (simp add: dict_set_def)
        from Cons.IH[OF this]
        show ?thesis
          using p Inr by (auto simp: dom_update)
      qed
    qed
  qed
qed

lemma py_eq_strings:
  "list_all2 py_eq (map JStr xs) (map JStr ys) \<longleftrightarrow> xs = ys"
proof (induction xs arbitrary: ys)
  case Nil
  show ?case by auto
next
  case (Cons x xs)
  show ?case by (cases ys) (simp_all add: Cons.IH)
qed

lemma join_strs_strings: "join_strs sep (map JStr xs) = Inr (separated sep xs)"
  by (induction sep xs rule: separated.induct) simp_all

lemma take_eq_self_iff: "xs = take n xs \<longleftrightarrow> length xs \<le> n"
proof
  assume "xs = take n xs"
  then have "length xs = length (take n xs)" by simp
  then show "length xs \<le> n" by simp
qed simp

lemma apply_limits_truncates:
  assumes "0 < m" and "nat m < length hs"
  shows "apply_limits (JArr (map JStr hs)) m =
           Inr ([(WARNING,
                  [Lit (''Found '' @ show_nat (length hs) @ '' but ''
                        @ ''authority maximum hints is set to '' @ show_int m
                        @ ''. '' @ ''the following authorities will be ignored: ''
                        @ separated '', '' (drop (nat m) hs))])],
                JArr (map JStr (take (nat m) hs)))"
proof -
  from assms have b: "slice_bound (length hs) m = nat m"
    by (simp add: slice_bound_def)
  from assms have ne: "hs \<noteq> take (nat m) hs"
    by (simp add: take_eq_self_iff)
  show ?thesis
    using assms(1) ne
    by (simp add: apply_limits_def b py_join_def take_map drop_map
        py_eq_strings join_strs_strings)
qed

lemma apply_limits_keeps:
  assumes "m = 0 \<or> (0 < m \<and> length hs \<le> nat m)"
  shows "apply_limits (JArr (map JStr hs)) m = Inr ([], JArr (map JStr hs))"
  using assms
  by (auto simp: apply_limits_def slice_bound_def py_eq_strings)

lemma get_entity_statements_strings:
  "get_entity_statements e (JArr (map JStr hs)) httpc =
     (map (\<lambda>h. (INFO, [Lit ''Starting Entity Statement Request for '', Val (JStr h)])) hs,
      http_get e (JArr (map JStr hs)) httpc)"
  by (simp add: get_entity_statements_def comp_def)

section \<open>The limit on authority hints\<close>

lemma fetch_superiors_log:
  "fst (fetch_superiors e self (JArr (map JStr hs))) =
     map (\<lambda>h. (INFO, [Lit ''Starting Entity Statement Request for '', Val (JStr h)])) hs"
  by (simp add: fetch_superiors_def get_entity_statements_strings split: sum.splits prod.splits)

lemma fetch_superiors_keys:
  assumes "k \<in> fst ` set (verified_superiors (fst (snd (fetch_superiors e self hints))))"
  shows "k \<in> fst ` set (verified_superiors self) \<or>
         (\<exists>lg jwts tok p s. get_entity_statements e hints (httpc_params self) = (lg, Inr jwts) \<and>
            tok \<in> set jwts \<and> unpad_jwt_payload e tok = Inr p \<and>
            py_item p ''sub'' = Inr s \<and> dict_key s = Inr k)"
proof (cases "get_entity_statements e hints (httpc_params self)")
  case (Pair lg r)
  show ?thesis
  proof (cases r)
    case (Inl err)
    with Pair assms show ?thesis by (simp add: fetch_superiors_def)
  next
    case (Inr jwts)
    obtain self' r' where l: "superiors_loop e self jwts = (self', r')"
      by (cases "superiors_loop e self jwts") auto
    with Pair Inr assms
    have "k \<in> fst ` set (verified_superiors (fst (superiors_loop e self jwts)))"
      by (cases r') (simp_all add: fetch_superiors_def)
    from superiors_loop_keys[OF this] Pair Inr show ?thesis by blast
  qed
qed

lemma fetch_superiors_failed_superiors:
  "failed_superiors (fst (snd (fetch_superiors e self hints))) = failed_superiors self"
proof (cases "get_entity_statements e hints (httpc_params self)")
  case (Pair lg r)
  show ?thesis
  proof (cases r)
    case (Inl err)
    with Pair show ?thesis by (simp add: fetch_superiors_def)
  next
    case (Inr jwts)
    obtain self' r' where l: "superiors_loop e self jwts = (self', r')"
      by (cases "superiors_loop e self jwts") auto
    have "failed_superiors (fst (superiors_loop e self jwts)) = failed_superiors self"
      by (rule superiors_loop_failed_superiors)
    with l have "failed_superiors self' = failed_superiors self" by simp
    with Pair Inr l show ?thesis
      by (cases r') (simp_all add: fetch_superiors_def)
  qed
qed

text \<open>
  Claim C5, as the code has it. Let the hints in force (the argument, or the entity's own
  \<^verbatim>\<open>authority_hints\<close> when the argument is empty) be the strings \<open>hs\<close>, and let the
  limit be \<open>m\<close>. When \<open>0 < m\<close> and \<open>hs\<close> is longer than \<open>m\<close>,
  \<^verbatim>\<open>get_superiors\<close> logs one warning that names the hints after the first \<open>m\<close>,
  separated by a comma and a space, and then does what fetching the first \<open>m\<close> hints
  alone does: the requests logged after the warning are those of the first \<open>m\<close>
  hints, in their order. The entries are stored under the \<^verbatim>\<open>sub\<close> each fetched
  configuration declares, not under the hint: a hint that was cut off is a key of
  \<^verbatim>\<open>verified_superiors\<close> or \<^verbatim>\<open>failed_superiors\<close> afterwards only if it was one
  before the call, or if a token fetched for one of the first \<open>m\<close> hints declares it
  as its \<^verbatim>\<open>sub\<close>. When the limit is 0, or \<open>hs\<close> is not longer than a positive
  limit, every hint is fetched and nothing is logged but the requests.
\<close>

theorem get_superiors_truncation:
  assumes hints:
    "(if py_truthy a then Inr a else py_item (payload self) ''authority_hints'') =
       Inr (JArr (map JStr hs))"
  shows
  "(0 < m \<and> nat m < length hs \<longrightarrow>
      get_superiors e self a m =
        (case fetch_superiors e self (JArr (map JStr (take (nat m) hs))) of
           (lg, r) \<Rightarrow>
             ((WARNING,
               [Lit (''Found '' @ show_nat (length hs) @ '' but ''
                     @ ''authority maximum hints is set to '' @ show_int m
                     @ ''. '' @ ''the following authorities will be ignored: ''
                     @ separated '', '' (drop (nat m) hs))]) # lg, r))
      \<and> tl (fst (get_superiors e self a m)) =
          map (\<lambda>h. (INFO, [Lit ''Starting Entity Statement Request for '', Val (JStr h)]))
            (take (nat m) hs)
      \<and> (\<forall>d \<in> set (drop (nat m) hs).
            JStr d \<in> fst ` set (verified_superiors (fst (snd (get_superiors e self a m))))
              \<union> fst ` set (failed_superiors (fst (snd (get_superiors e self a m))))
            \<longrightarrow>
            JStr d \<in> fst ` set (verified_superiors self) \<union> fst ` set (failed_superiors self)
            \<or> (\<exists>jwts tok p.
                  http_get e (JArr (map JStr (take (nat m) hs))) (httpc_params self) = Inr jwts
                  \<and> tok \<in> set jwts \<and> unpad_jwt_payload e tok = Inr p
                  \<and> py_item p ''sub'' = Inr (JStr d))))
   \<and> (m = 0 \<or> (0 < m \<and> length hs \<le> nat m) \<longrightarrow>
        get_superiors e self a m = fetch_superiors e self (JArr (map JStr hs)))"
proof (intro conjI impI)
  have unfolded: "get_superiors e self a m =
      (case apply_limits (JArr (map JStr hs)) m of
         Inl err \<Rightarrow> ([], self, Inl err)
       | Inr (lg1, hints') \<Rightarrow>
           (case fetch_superiors e self hints' of (lg2, r) \<Rightarrow> (lg1 @ lg2, r)))"
    unfolding get_superiors_def hints by simp
  {
    assume "m = 0 \<or> (0 < m \<and> length hs \<le> nat m)"
    then show "get_superiors e self a m = fetch_superiors e self (JArr (map JStr hs))"
      by (simp add: unfolded apply_limits_keeps split: prod.splits)
  }
  assume a: "0 < m \<and> nat m < length hs"
  let ?kept = "JArr (map JStr (take (nat m) hs))"
  obtain lg self' r where f: "fetch_superiors e self ?kept = (lg, self', r)"
    by (cases "fetch_superiors e self ?kept") auto
  from a show g: "get_superiors e self a m =
        (case fetch_superiors e self ?kept of
           (lg, r) \<Rightarrow>
             ((WARNING,
               [Lit (''Found '' @ show_nat (length hs) @ '' but ''
                     @ ''authority maximum hints is set to '' @ show_int m
                     @ ''. '' @ ''the following authorities will be ignored: ''
                     @ separated '', '' (drop (nat m) hs))]) # lg, r))"
    by (simp add: unfolded apply_limits_truncates split: prod.splits)
  have lg: "lg = map (\<lambda>h. (INFO, [Lit ''Starting Entity Statement Request for '', Val (JStr h)]))
            (take (nat m) hs)"
    using fetch_superiors_log[of e self "take (nat m) hs"] f by simp
  show "tl (fst (get_superiors e self a m)) =
          map (\<lambda>h. (INFO, [Lit ''Starting Entity Statement Request for '', Val (JStr h)]))
            (take (nat m) hs)"
    by (simp add: g f lg)
  have s: "fst (snd (get_superiors e self a m)) = self'"
    by (simp add: g f)
  have s': "self' = fst (snd (fetch_superiors e self ?kept))"
    by (simp add: f)
  show "\<forall>d \<in> set (drop (nat m) hs).
            JStr d \<in> fst ` set (verified_superiors (fst (snd (get_superiors e self a m))))
              \<union> fst ` set (failed_superiors (fst (snd (get_superiors e self a m))))
            \<longrightarrow>
            JStr d \<in> fst ` set (verified_superiors self) \<union> fst ` set (failed_superiors self)
            \<or> (\<exists>jwts tok p.
                  http_get e ?kept (httpc_params self) = Inr jwts
                  \<and> tok \<in> set jwts \<and> unpad_jwt_payload e tok = Inr p
                  \<and> py_item p ''sub'' = Inr (JStr d))"
  proof (intro ballI impI)
    fix d
    assume "JStr d \<in> fst ` set (verified_superiors (fst (snd (get_superiors e self a m))))
              \<union> fst ` set (failed_superiors (fst (snd (get_superiors e self a m))))"
    then have "JStr d \<in> fst ` set (verified_superiors self') \<or> JStr d \<in> fst ` set (failed_superiors self')"
      by (simp add: s)
    then show "JStr d \<in> fst ` set (verified_superiors self) \<union> fst ` set (failed_superiors self)
            \<or> (\<exists>jwts tok p.
                  http_get e ?kept (httpc_params self) = Inr jwts
                  \<and> tok \<in> set jwts \<and> unpad_jwt_payload e tok = Inr p
                  \<and> py_item p ''sub'' = Inr (JStr d))"
    proof
      assume "JStr d \<in> fst ` set (verified_superiors self')"
      then have "JStr d \<in> fst ` set (verified_superiors (fst (snd (fetch_superiors e self ?kept))))"
        by (simp add: s')
      from fetch_superiors_keys[OF this]
      show ?thesis
      proof
        assume "JStr d \<in> fst ` set (verified_superiors self)"
        then show ?thesis by simp
      next
        assume "\<exists>lg jwts tok p s. get_entity_statements e ?kept (httpc_params self) = (lg, Inr jwts) \<and>
            tok \<in> set jwts \<and> unpad_jwt_payload e tok = Inr p \<and>
            py_item p ''sub'' = Inr s \<and> dict_key s = Inr (JStr d)"
        then obtain lg jwts tok p s where
          h: "get_entity_statements e ?kept (httpc_params self) = (lg, Inr jwts)"
             "tok \<in> set jwts" "unpad_jwt_payload e tok = Inr p"
             "py_item p ''sub'' = Inr s" "dict_key s = Inr (JStr d)"
          by blast
        from h(5) have "s = JStr d" by (cases s) (simp_all split: if_splits)
        moreover from h(1) have "http_get e ?kept (httpc_params self) = Inr jwts"
          by (simp add: get_entity_statements_strings)
        ultimately show ?thesis using h by blast
      qed
    next
      assume "JStr d \<in> fst ` set (failed_superiors self')"
      then show ?thesis
        by (simp add: s' fetch_superiors_failed_superiors)
    qed
  qed
qed

text \<open>
  The theorem on the example federation: two hints and a limit of 1, then the leaf's
  own single hint and a limit of 1.
\<close>

theorem get_superiors_truncation_witness:
  "(if py_truthy (JArr [JStr ''https://rogue.example/'', JStr ''https://ta.example/''])
    then Inr (JArr [JStr ''https://rogue.example/'', JStr ''https://ta.example/''])
    else py_item (payload example_leaf) ''authority_hints'') =
     Inr (JArr (map JStr [''https://rogue.example/'', ''https://ta.example/'']))
   \<and> 0 < (1::int) \<and> nat 1 < length [''https://rogue.example/'', ''https://ta.example/'']
   \<and> get_superiors example_env example_leaf
        (JArr [JStr ''https://rogue.example/'', JStr ''https://ta.example/'']) 1 =
       (case fetch_superiors example_env example_leaf (JArr [JStr ''https://rogue.example/'']) of
          (lg, r) \<Rightarrow>
            ((WARNING,
              [Lit ''Found 2 but authority maximum hints is set to 1. the following authorities will be ignored: https://ta.example/''])
             # lg, r))
   \<and> JStr ''https://ta.example/'' \<in>
       fst ` set (verified_superiors (fst (snd (get_superiors example_env example_leaf
          (JArr [JStr ''https://rogue.example/'', JStr ''https://ta.example/'']) 1))))
   \<and> (\<exists>jwts tok p.
         http_get example_env (JArr [JStr ''https://rogue.example/'']) (httpc_params example_leaf) = Inr jwts
         \<and> tok \<in> set jwts \<and> unpad_jwt_payload example_env tok = Inr p
         \<and> py_item p ''sub'' = Inr (JStr ''https://ta.example/''))
   \<and> (if py_truthy (JArr []) then Inr (JArr [])
       else py_item (payload example_leaf) ''authority_hints'') =
       Inr (JArr (map JStr [''https://ta.example/'']))
   \<and> length [''https://ta.example/''] \<le> nat 1
   \<and> get_superiors example_env example_leaf (JArr []) 1 =
       fetch_superiors example_env example_leaf (JArr [JStr ''https://ta.example/''])"
proof -
  have n: "show_nat (Suc (Suc 0)) = ''2''" "show_int 1 = ''1''"
    by code_simp+
  have k: "JStr ''https://ta.example/'' \<in>
       fst ` set (verified_superiors (fst (snd (get_superiors example_env example_leaf
          (JArr [JStr ''https://rogue.example/'', JStr ''https://ta.example/'']) 1))))"
    by code_simp
  have b: "JStr ''https://ta.example/'' \<notin> fst ` set (verified_superiors example_leaf)
            \<union> fst ` set (failed_superiors example_leaf)"
    by code_simp
  have h1: "(if py_truthy (JArr [JStr ''https://rogue.example/'', JStr ''https://ta.example/''])
    then Inr (JArr [JStr ''https://rogue.example/'', JStr ''https://ta.example/''])
    else py_item (payload example_leaf) ''authority_hints'') =
     Inr (JArr (map JStr [''https://rogue.example/'', ''https://ta.example/'']))"
    by simp
  have h2: "(if py_truthy (JArr []) then Inr (JArr [])
       else py_item (payload example_leaf) ''authority_hints'') =
       Inr (JArr (map JStr [''https://ta.example/'']))"
    by code_simp
  note t1 = get_superiors_truncation [OF h1, of 1 example_env]
  note t2 = get_superiors_truncation [OF h2, of 1 example_env]
  from t1 have e: "\<exists>jwts tok p.
         http_get example_env (JArr [JStr ''https://rogue.example/'']) (httpc_params example_leaf) = Inr jwts
         \<and> tok \<in> set jwts \<and> unpad_jwt_payload example_env tok = Inr p
         \<and> py_item p ''sub'' = Inr (JStr ''https://ta.example/'')"
    using k b by simp
  from t1 have g: "get_superiors example_env example_leaf
        (JArr [JStr ''https://rogue.example/'', JStr ''https://ta.example/'']) 1 =
       (case fetch_superiors example_env example_leaf (JArr [JStr ''https://rogue.example/'']) of
          (lg, r) \<Rightarrow>
            ((WARNING,
              [Lit ''Found 2 but authority maximum hints is set to 1. the following authorities will be ignored: https://ta.example/''])
             # lg, r))"
    by (simp add: n)
  from t2 have h: "get_superiors example_env example_leaf (JArr []) 1 =
       fetch_superiors example_env example_leaf (JArr [JStr ''https://ta.example/''])"
    by simp
  show ?thesis
    using g k e h h1 h2 by simp
qed

text \<open>
  C5 as stated fails: with the hints \<^verbatim>\<open>https://rogue.example/\<close> and
  \<^verbatim>\<open>https://ta.example/\<close> and a limit of 1, the second hint is cut off, and it is a
  key of \<^verbatim>\<open>verified_superiors\<close> after the call, because the configuration served by
  the first host declares it as its \<^verbatim>\<open>sub\<close>.
\<close>

theorem get_superiors_discarded_hint_counterexample:
  "''https://ta.example/'' \<in> set (drop (nat 1) [''https://rogue.example/'', ''https://ta.example/''])
   \<and> JStr ''https://ta.example/'' \<in>
       fst ` set (verified_superiors (fst (snd (get_superiors example_env example_leaf
          (JArr [JStr ''https://rogue.example/'', JStr ''https://ta.example/'']) 1))))"
  by code_simp

section \<open>Discovery URLs, key sets and construction\<close>

lemma configuration_urls_nonempty:
  assumes "\<forall>s \<in> set ss. s \<noteq> []"
  shows "configuration_urls ss =
     (map (\<lambda>s. (INFO, [Lit ''Starting Entity Configuration Request for '',
                        Lit ((if last s = CHR ''/'' then s else s @ ''/'') @ ''.well-known/openid-federation'')])) ss,
      Inr (map (\<lambda>s. (if last s = CHR ''/'' then s else s @ ''/'') @ ''.well-known/openid-federation'') ss))"
  using assms
  by (induction ss) (simp_all add: OIDCFED_FEDERATION_WELLKNOWN_URL_def Let_def)

text \<open>
  Claim C9. For a subject that is not the empty string, the URL
  \<^verbatim>\<open>get_entity_configurations\<close> hands to \<^verbatim>\<open>http_get\<close> is the subject, then one
  \<^verbatim>\<open>/\<close> if the subject does not already end in one, then
  \<^verbatim>\<open>.well-known/openid-federation\<close>; for a list of such subjects, the URLs are built
  this way one by one, in order, and each is logged.
\<close>

theorem get_entity_configurations_well_known_url:
  "(s \<noteq> [] \<longrightarrow>
      snd (get_entity_configurations e (Subject s) httpc) =
        http_get e (JArr [JStr ((if last s = CHR ''/'' then s else s @ ''/'')
                                @ ''.well-known/openid-federation'')]) httpc)
   \<and> ((\<forall>s \<in> set ss. s \<noteq> []) \<longrightarrow>
      get_entity_configurations e (Subjects ss) httpc =
        (map (\<lambda>s. (INFO, [Lit ''Starting Entity Configuration Request for '',
                           Lit ((if last s = CHR ''/'' then s else s @ ''/'')
                                @ ''.well-known/openid-federation'')])) ss,
         http_get e (JArr (map (\<lambda>s. JStr ((if last s = CHR ''/'' then s else s @ ''/'')
                                           @ ''.well-known/openid-federation'')) ss)) httpc))"
proof (intro conjI impI)
  assume "s \<noteq> []"
  then have "\<forall>x \<in> set [s]. x \<noteq> []" by simp
  from configuration_urls_nonempty[OF this]
  show "snd (get_entity_configurations e (Subject s) httpc) =
        http_get e (JArr [JStr ((if last s = CHR ''/'' then s else s @ ''/'')
                                @ ''.well-known/openid-federation'')]) httpc"
    by (simp add: get_entity_configurations_def)
next
  assume "\<forall>s \<in> set ss. s \<noteq> []"
  from configuration_urls_nonempty[OF this]
  show "get_entity_configurations e (Subjects ss) httpc =
        (map (\<lambda>s. (INFO, [Lit ''Starting Entity Configuration Request for '',
                           Lit ((if last s = CHR ''/'' then s else s @ ''/'')
                                @ ''.well-known/openid-federation'')])) ss,
         http_get e (JArr (map (\<lambda>s. JStr ((if last s = CHR ''/'' then s else s @ ''/'')
                                           @ ''.well-known/openid-federation'')) ss)) httpc)"
    by (simp add: get_entity_configurations_def comp_def)
qed

text \<open>
  The theorem on a subject without a trailing \<^verbatim>\<open>/\<close> and on one with it.
\<close>

theorem get_entity_configurations_well_known_url_witness:
  "''https://ta.example'' \<noteq> [] \<and> ''https://leaf.example/'' \<noteq> []
   \<and> snd (get_entity_configurations example_env (Subject ''https://ta.example'') (JObj [])) =
       http_get example_env (JArr [JStr ''https://ta.example/.well-known/openid-federation'']) (JObj [])
   \<and> snd (get_entity_configurations example_env
            (Subjects [''https://ta.example'', ''https://leaf.example/'']) (JObj [])) =
       http_get example_env
         (JArr [JStr ''https://ta.example/.well-known/openid-federation'',
                JStr ''https://leaf.example/.well-known/openid-federation'']) (JObj [])"
  using get_entity_configurations_well_known_url
          [of "''https://ta.example''" example_env "JObj []" "[''https://ta.example'', ''https://leaf.example/'']"]
  by simp

text \<open>
  Claim C8, as the code has it. \<^verbatim>\<open>get_jwks\<close> returns the embedded \<^verbatim>\<open>jwks\<close> claim of
  a payload that has one. On a payload without a \<^verbatim>\<open>jwks\<close> claim, whatever else it
  declares, it returns \<^verbatim>\<open>None\<close> and raises nothing.
\<close>

theorem get_jwks_embedded_or_none:
  "(map_of kvs ''jwks'' = Some ks \<longrightarrow> get_jwks (JObj kvs) httpc = Inr ks)
   \<and> (map_of kvs ''jwks'' = None \<longrightarrow> get_jwks (JObj kvs) httpc = Inr JNull)"
  by (simp add: get_jwks_def)

text \<open>
  The theorem on a payload with an embedded key set and on one with \<^verbatim>\<open>jwks_uri\<close> only.
\<close>

theorem get_jwks_embedded_or_none_witness:
  "map_of [(''jwks'', JArr [key ''k1''])] ''jwks'' = Some (JArr [key ''k1''])
   \<and> get_jwks (JObj [(''jwks'', JArr [key ''k1''])]) (JObj []) = Inr (JArr [key ''k1''])
   \<and> map_of [(''jwks_uri'', JStr ''https://uri.example/jwks.json'')] ''jwks'' = None
   \<and> get_jwks (JObj [(''jwks_uri'', JStr ''https://uri.example/jwks.json'')]) (JObj []) = Inr JNull"
  using get_jwks_embedded_or_none [of "[(''jwks'', JArr [key ''k1''])]" "JArr [key ''k1'']" "JObj []"]
        get_jwks_embedded_or_none [of "[(''jwks_uri'', JStr ''https://uri.example/jwks.json'')]" _ "JObj []"]
  by simp

text \<open>
  C8 as stated fails: on a payload that declares \<^verbatim>\<open>jwks_uri\<close> and no \<^verbatim>\<open>jwks\<close>,
  \<^verbatim>\<open>get_jwks\<close> returns \<^verbatim>\<open>None\<close>; nothing is raised.
\<close>

theorem get_jwks_remote_uri_counterexample:
  "get_jwks (JObj [(''jwks_uri'', JStr ''https://uri.example/jwks.json'')]) (JObj []) = Inr JNull"
  by code_simp

lemma kid_list_JNull [simp]: "kid_list JNull = Inl TypeError"
  by (simp add: kid_list_def)

text \<open>
  Claim C10. When the decoded payload is a dict without \<^verbatim>\<open>sub\<close> or without
  \<^verbatim>\<open>jwks\<close>, \<^verbatim>\<open>__init__\<close> raises and there is no object. When \<^verbatim>\<open>__init__\<close>
  returns, header and payload decoded, the payload has both claims, the four maps of
  the new object are empty and \<^verbatim>\<open>is_valid\<close> is \<^verbatim>\<open>False\<close>.
\<close>

theorem EntityConfiguration_init_requires_sub_and_jwks:
  "(unpad_jwt_payload e tok = Inr (JObj kvs)
      \<and> (map_of kvs ''sub'' = None \<or> map_of kvs ''jwks'' = None)
    \<longrightarrow> (\<exists>err. EntityConfiguration_init e tok httpc flt tas tmis = Inl err))
   \<and> (EntityConfiguration_init e tok httpc flt tas tmis = Inr c
    \<longrightarrow> (\<exists>h p s ks. unpad_jwt_head e tok = Inr h \<and> unpad_jwt_payload e tok = Inr p
            \<and> py_item p ''sub'' = Inr s \<and> py_item p ''jwks'' = Inr ks)
        \<and> verified_superiors c = [] \<and> failed_superiors c = []
        \<and> verified_by_superiors c = [] \<and> failed_by_superiors c = []
        \<and> \<not> is_valid c)"
proof (rule conjI; rule impI)
  assume a: "unpad_jwt_payload e tok = Inr (JObj kvs)
      \<and> (map_of kvs ''sub'' = None \<or> map_of kvs ''jwks'' = None)"
  show "\<exists>err. EntityConfiguration_init e tok httpc flt tas tmis = Inl err"
  proof (cases "unpad_jwt_head e tok")
    case (Inl err)
    then show ?thesis by (simp add: EntityConfiguration_init_def)
  next
    case (Inr h)
    from a show ?thesis
      by (auto simp: EntityConfiguration_init_def Inr get_jwks_def split: option.splits)
  qed
next
  assume "EntityConfiguration_init e tok httpc flt tas tmis = Inr c"
  then obtain h p s ks kds where
    h: "unpad_jwt_head e tok = Inr h" "unpad_jwt_payload e tok = Inr p"
       "py_item p ''sub'' = Inr s" "get_jwks p httpc = Inr ks" "kid_list ks = Inr kds"
       "c = EC tok h p s ks kds httpc flt tas tmis [] [] [] [] False"
    by (auto simp: EntityConfiguration_init_def bindE_eq_Inr)
  from h(3) obtain kvs where p: "p = JObj kvs" by (cases p) simp_all
  from h(4,5) p have "py_item p ''jwks'' = Inr ks"
    by (auto simp: get_jwks_def split: option.splits)
  with h show "(\<exists>h p s ks. unpad_jwt_head e tok = Inr h \<and> unpad_jwt_payload e tok = Inr p
            \<and> py_item p ''sub'' = Inr s \<and> py_item p ''jwks'' = Inr ks)
        \<and> verified_superiors c = [] \<and> failed_superiors c = []
        \<and> verified_by_superiors c = [] \<and> failed_by_superiors c = []
        \<and> \<not> is_valid c"
    by auto
qed

text \<open>
  The theorem on the example federation: the token that publishes only \<^verbatim>\<open>jwks_uri\<close>
  cannot be constructed, the leaf's token can.
\<close>

theorem EntityConfiguration_init_requires_sub_and_jwks_witness:
  "unpad_jwt_payload example_env ''jwks_uri.jwt'' = Inr (JObj jwks_uri_claims)
   \<and> map_of jwks_uri_claims ''jwks'' = None
   \<and> (\<exists>err. EntityConfiguration_init example_env ''jwks_uri.jwt'' (JObj []) (JArr []) (JArr []) (JArr []) = Inl err)
   \<and> EntityConfiguration_init example_env ''leaf.jwt'' (JObj []) (JArr []) (JArr []) (JArr []) = Inr example_leaf
   \<and> verified_superiors example_leaf = [] \<and> failed_superiors example_leaf = []
   \<and> verified_by_superiors example_leaf = [] \<and> failed_by_superiors example_leaf = []
   \<and> \<not> is_valid example_leaf"
proof -
  have p: "unpad_jwt_payload example_env ''jwks_uri.jwt'' = Inr (JObj jwks_uri_claims)"
    by code_simp
  have n: "map_of jwks_uri_claims ''jwks'' = None"
    by code_simp
  have l: "EntityConfiguration_init example_env ''leaf.jwt'' (JObj []) (JArr []) (JArr []) (JArr []) = Inr example_leaf"
    by code_simp
  show ?thesis
    using p n l
      EntityConfiguration_init_requires_sub_and_jwks
        [of example_env "''jwks_uri.jwt''" jwks_uri_claims "JObj []" "JArr []" "JArr []" "JArr []"]
      EntityConfiguration_init_requires_sub_and_jwks
        [of example_env "''leaf.jwt''" _ "JObj []" "JArr []" "JArr []" "JArr []" example_leaf]
    by blast
qed

section \<open>Validation by a superior's statement\<close>

lemma py_index_not_in:
  "\<not> py_in x xs \<Longrightarrow> py_index xs x = Inl ValueError"
  by (induction xs) (simp_all add: py_in_def)

lemma try_block_unknown_kid:
  assumes "unpad_jwt_payload e tok = Inr p"
      and "get_jwks p (httpc_params self) = Inr ks" and "kid_list ks = Inr kds"
      and "py_item (header self) ''kid'' = Inr hk" and "\<not> py_in hk kds"
  shows "\<exists>ec' err. try_block e self tok ec = (Some p, ec', Inl err)"
proof (cases "validate_by_itself e ec")
  case (Inl err)
  with assms(1) show ?thesis by (simp add: try_block_def)
next
  case (Inr okc)
  obtain ok ec' where okc: "okc = (ok, ec')" by (cases okc)
  show ?thesis
  proof (cases "validate_descendant_statement e ec' tok")
    case (Inl err)
    with assms(1) Inr okc show ?thesis by (simp add: try_block_def)
  next
    case (Inr b)
    with assms \<open>validate_by_itself e ec = Inr okc\<close> okc show ?thesis
      by (simp add: try_block_def py_index_not_in)
  qed
qed

text \<open>
  Claim C6. The statement token decodes to a payload \<open>p\<close> with an issuer that can be
  a dict key, \<open>p\<close> embeds a key set whose kids are \<open>kds\<close>, and the kid \<open>hk\<close> of the
  subject's own header is not among them. Then \<^verbatim>\<open>validate_by_superior_statement\<close>
  returns \<^verbatim>\<open>False\<close> and raises nothing, whatever the superior \<open>ec\<close> is; the payload is
  stored in \<^verbatim>\<open>failed_superiors\<close> under the issuer.
\<close>

theorem validate_by_superior_statement_unknown_kid:
  assumes "unpad_jwt_payload e tok = Inr p"
      and "py_item p ''iss'' = Inr iss" and "dict_key iss = Inr k"
      and "get_jwks p (httpc_params self) = Inr ks" and "kid_list ks = Inr kds"
      and "py_item (header self) ''kid'' = Inr hk" and "\<not> py_in hk kds"
  shows "fst (validate_by_superior_statement e self tok ec) = Inr False
         \<and> failed_superiors (fst (snd (validate_by_superior_statement e self tok ec))) =
             AList.update k (Statement p) (failed_superiors self)
         \<and> verified_superiors (fst (snd (validate_by_superior_statement e self tok ec))) =
             verified_superiors self"
proof -
  from try_block_unknown_kid[OF assms(1) assms(4-7)]
  obtain ec' err where "try_block e self tok ec = (Some p, ec', Inl err)"
    by blast
  with assms(2,3) show ?thesis
    by (simp add: validate_by_superior_statement_def dict_set_def)
qed

text \<open>
  The theorem on the example federation: the second trust anchor's statement embeds
  the key \<^verbatim>\<open>k9\<close>, the leaf signs with \<^verbatim>\<open>k1\<close>.
\<close>

theorem validate_by_superior_statement_unknown_kid_witness:
  "unpad_jwt_payload example_env ''stmt_other_key.jwt'' = Inr stmt_other_key_payload
   \<and> py_item stmt_other_key_payload ''iss'' = Inr (JStr ''https://ta2.example/'')
   \<and> dict_key (JStr ''https://ta2.example/'') = Inr (JStr ''https://ta2.example/'')
   \<and> get_jwks stmt_other_key_payload (httpc_params example_leaf) = Inr (JArr [key ''k9''])
   \<and> kid_list (JArr [key ''k9'']) = Inr [JStr ''k9'']
   \<and> py_item (header example_leaf) ''kid'' = Inr (JStr ''k1'')
   \<and> \<not> py_in (JStr ''k1'') [JStr ''k9'']
   \<and> fst (validate_by_superior_statement example_env example_leaf ''stmt_other_key.jwt'' example_ta2)
       = Inr False
   \<and> failed_superiors (fst (snd (validate_by_superior_statement example_env example_leaf
         ''stmt_other_key.jwt'' example_ta2))) =
       [(JStr ''https://ta2.example/'', Statement stmt_other_key_payload)]"
proof -
  have h: "unpad_jwt_payload example_env ''stmt_other_key.jwt'' = Inr stmt_other_key_payload"
    "py_item stmt_other_key_payload ''iss'' = Inr (JStr ''https://ta2.example/'')"
    "dict_key (JStr ''https://ta2.example/'') = Inr (JStr ''https://ta2.example/'')"
    "get_jwks stmt_other_key_payload (httpc_params example_leaf) = Inr (JArr [key ''k9''])"
    "kid_list (JArr [key ''k9'']) = Inr [JStr ''k9'']"
    "py_item (header example_leaf) ''kid'' = Inr (JStr ''k1'')"
    "\<not> py_in (JStr ''k1'') [JStr ''k9'']"
    by code_simp+
  have f: "failed_superiors example_leaf = []"
    by code_simp
  from validate_by_superior_statement_unknown_kid
         [OF h, of example_ta2]
  show ?thesis
    using h by (simp add: f)
qed

section \<open>The trust mark filter\<close>

lemma set_filter_sel [simp]:
  "jwt (set_filter_by_allowed_trust_marks f c) = jwt c"
  "header (set_filter_by_allowed_trust_marks f c) = header c"
  "payload (set_filter_by_allowed_trust_marks f c) = payload c"
  "jwks (set_filter_by_allowed_trust_marks f c) = jwks c"
  "kids (set_filter_by_allowed_trust_marks f c) = kids c"
  "httpc_params (set_filter_by_allowed_trust_marks f c) = httpc_params c"
  "verified_superiors (set_filter_by_allowed_trust_marks f c) = verified_superiors c"
  "failed_superiors (set_filter_by_allowed_trust_marks f c) = failed_superiors c"
  "filter_by_allowed_trust_marks (set_filter_by_allowed_trust_marks f c) = f"
  by (simp_all add: set_filter_by_allowed_trust_marks_def)

lemma set_filter_commutes:
  "set_is_valid b (set_filter_by_allowed_trust_marks f c) =
     set_filter_by_allowed_trust_marks f (set_is_valid b c)"
  "set_verified_superiors d (set_filter_by_allowed_trust_marks f c) =
     set_filter_by_allowed_trust_marks f (set_verified_superiors d c)"
  "set_failed_superiors d (set_filter_by_allowed_trust_marks f c) =
     set_filter_by_allowed_trust_marks f (set_failed_superiors d c)"
  by (simp_all add: set_filter_by_allowed_trust_marks_def set_is_valid_def
      set_verified_superiors_def set_failed_superiors_def)

lemma init_ignores_filter:
  "EntityConfiguration_init e tok httpc flt tas tmis =
     map_sum id (set_filter_by_allowed_trust_marks flt)
       (EntityConfiguration_init e tok httpc (JArr []) tas tmis)"
  by (simp add: EntityConfiguration_init_def bindE_def set_filter_by_allowed_trust_marks_def
      split: sum.splits)

lemma validate_by_itself_ignores_filter:
  "validate_by_itself e (set_filter_by_allowed_trust_marks flt c) =
     map_sum id (map_prod id (set_filter_by_allowed_trust_marks flt)) (validate_by_itself e c)"
  by (simp add: validate_by_itself_def bindE_def set_filter_commutes split: sum.splits)

lemma superiors_loop_ignores_filter:
  "superiors_loop e (set_filter_by_allowed_trust_marks flt self) jwts =
     map_prod (set_filter_by_allowed_trust_marks flt) id (superiors_loop e self jwts)"
proof (induction jwts arbitrary: self)
  case Nil
  show ?case by simp
next
  case (Cons tok toks)
  show ?case
    by (simp add: Cons.IH set_filter_commutes split: sum.splits prod.splits)
qed

lemma fetch_superiors_ignores_filter:
  "fetch_superiors e (set_filter_by_allowed_trust_marks flt self) hints =
     (case fetch_superiors e self hints of
        (lg, self', r) \<Rightarrow> (lg, set_filter_by_allowed_trust_marks flt self', r))"
proof (cases "get_entity_statements e hints (httpc_params self)")
  case (Pair lg r)
  show ?thesis
  proof (cases r)
    case (Inl err)
    with Pair show ?thesis by (simp add: fetch_superiors_def)
  next
    case (Inr jwts)
    obtain self' r' where l: "superiors_loop e self jwts = (self', r')"
      by (cases "superiors_loop e self jwts") auto
    with Pair Inr show ?thesis
      by (cases r') (simp_all add: fetch_superiors_def superiors_loop_ignores_filter)
  qed
qed

text \<open>
  Claim C7, as the code has it. \<^verbatim>\<open>get_valid_trust_marks\<close> raises
  \<^verbatim>\<open>NotImplementedError\<close> on every call, whatever the filter. No other method calls it
  or reads \<^verbatim>\<open>filter_by_allowed_trust_marks\<close>: construction, self-validation and
  \<^verbatim>\<open>get_superiors\<close> do for every filter what they do for the empty one, and the
  filter is only stored.
\<close>

theorem trust_mark_filter_only_stored:
  "get_valid_trust_marks c = Inl NotImplementedError
   \<and> EntityConfiguration_init e tok httpc flt tas tmis =
       map_sum id (set_filter_by_allowed_trust_marks flt)
         (EntityConfiguration_init e tok httpc (JArr []) tas tmis)
   \<and> validate_by_itself e (set_filter_by_allowed_trust_marks flt c) =
       map_sum id (map_prod id (set_filter_by_allowed_trust_marks flt)) (validate_by_itself e c)
   \<and> get_superiors e (set_filter_by_allowed_trust_marks flt c) hints m =
       (case get_superiors e c hints m of
          (lg, c', r) \<Rightarrow> (lg, set_filter_by_allowed_trust_marks flt c', r))"
proof -
  have "get_superiors e (set_filter_by_allowed_trust_marks flt c) hints m =
       (case get_superiors e c hints m of
          (lg, c', r) \<Rightarrow> (lg, set_filter_by_allowed_trust_marks flt c', r))"
  proof -
    define h where "h = (if py_truthy hints then Inr hints
                         else py_item (payload c) ''authority_hints'')"
    have g: "get_superiors e c hints m =
        (case h of
           Inl err \<Rightarrow> ([], c, Inl err)
         | Inr hs \<Rightarrow>
             (case apply_limits hs m of
                Inl err \<Rightarrow> ([], c, Inl err)
              | Inr (lg1, hs') \<Rightarrow>
                  (case fetch_superiors e c hs' of (lg2, r) \<Rightarrow> (lg1 @ lg2, r))))"
      by (simp add: get_superiors_def h_def)
    have g': "get_superiors e (set_filter_by_allowed_trust_marks flt c) hints m =
        (case h of
           Inl err \<Rightarrow> ([], set_filter_by_allowed_trust_marks flt c, Inl err)
         | Inr hs \<Rightarrow>
             (case apply_limits hs m of
                Inl err \<Rightarrow> ([], set_filter_by_allowed_trust_marks flt c, Inl err)
              | Inr (lg1, hs') \<Rightarrow>
                  (case fetch_superiors e (set_filter_by_allowed_trust_marks flt c) hs' of
                     (lg2, r) \<Rightarrow> (lg1 @ lg2, r))))"
      by (simp add: get_superiors_def h_def)
    show ?thesis
    proof (cases h)
      case (Inl err)
      then show ?thesis by (simp add: g g')
    next
      case (Inr hs)
      show ?thesis
      proof (cases "apply_limits hs m")
        case (Inl err)
        with Inr show ?thesis by (simp add: g g')
      next
        case lim: (Inr lh)
        obtain lg1 hs' where lh: "lh = (lg1, hs')" by (cases lh)
        obtain lg2 c' r where f: "fetch_superiors e c hs' = (lg2, c', r)"
          by (cases "fetch_superiors e c hs'") auto
        from Inr lim lh f show ?thesis
          by (simp add: g g' fetch_superiors_ignores_filter)
      qed
    qed
  qed
  moreover have "get_valid_trust_marks c = Inl NotImplementedError"
    by (simp add: get_valid_trust_marks_def)
  moreover note init_ignores_filter [of e tok httpc flt tas tmis]
    validate_by_itself_ignores_filter [of e flt c]
  ultimately show ?thesis
    by blast
qed

text \<open>
  The theorem on the leaf of the example federation, with a filter of one trust mark.
\<close>

theorem trust_mark_filter_only_stored_witness:
  "get_valid_trust_marks (set_filter_by_allowed_trust_marks (JArr [JStr ''https://tm.example/certified'']) example_leaf)
     = Inl NotImplementedError
   \<and> validate_by_itself example_env
        (set_filter_by_allowed_trust_marks (JArr [JStr ''https://tm.example/certified'']) example_leaf) =
       Inr (True, set_filter_by_allowed_trust_marks (JArr [JStr ''https://tm.example/certified''])
                    (set_is_valid True example_leaf))"
proof -
  have "validate_by_itself example_env example_leaf = Inr (True, set_is_valid True example_leaf)"
    by code_simp
  then show ?thesis
    using trust_mark_filter_only_stored
      [where e = example_env and flt = "JArr [JStr ''https://tm.example/certified'']"
         and c = example_leaf]
    by (simp add: get_valid_trust_marks_def)
qed

text \<open>
  C7 as stated fails: with a filter of one trust mark the leaf is constructed,
  validates itself and resolves its superior, and nothing is raised.
\<close>

theorem trust_mark_filter_ignored_counterexample:
  "EntityConfiguration_init example_env ''leaf.jwt'' (JObj [])
       (JArr [JStr ''https://tm.example/certified'']) (JArr []) (JArr []) =
     Inr (set_filter_by_allowed_trust_marks (JArr [JStr ''https://tm.example/certified'']) example_leaf)
   \<and> map_sum id fst (validate_by_itself example_env
        (set_filter_by_allowed_trust_marks (JArr [JStr ''https://tm.example/certified'']) example_leaf)) =
       Inr True
   \<and> map_sum id (map fst) (snd (snd (get_superiors example_env
        (set_filter_by_allowed_trust_marks (JArr [JStr ''https://tm.example/certified'']) example_leaf)
        (JArr []) 0))) =
       Inr [JStr ''https://ta.example/'']"
  by code_simp

section \<open>What the methods store, and where they raise\<close>

text \<open>
  \<^verbatim>\<open>validate_by_itself\<close> never returns \<^verbatim>\<open>False\<close>: it returns \<^verbatim>\<open>True\<close> or raises.
\<close>

lemma validate_by_itself_never_False:
  "map_sum id fst (validate_by_itself e c) \<noteq> Inr False"
  by (cases "validate_by_itself e c") (auto dest: validate_by_itself_Inr)

text \<open>
  \<^verbatim>\<open>get_superiors\<close> never writes to \<^verbatim>\<open>failed_superiors\<close>: the \<^verbatim>\<open>else\<close> branch
  of its loop is not reachable.
\<close>

lemma get_superiors_failed_superiors:
  "failed_superiors (fst (snd (get_superiors e self hints m))) = failed_superiors self"
proof -
  define h where "h = (if py_truthy hints then Inr hints
                       else py_item (payload self) ''authority_hints'')"
  have g: "get_superiors e self hints m =
      (case h of
         Inl err \<Rightarrow> ([], self, Inl err)
       | Inr hs \<Rightarrow>
           (case apply_limits hs m of
              Inl err \<Rightarrow> ([], self, Inl err)
            | Inr (lg1, hs') \<Rightarrow>
                (case fetch_superiors e self hs' of (lg2, r) \<Rightarrow> (lg1 @ lg2, r))))"
    by (simp add: get_superiors_def h_def)
  show ?thesis
  proof (cases h)
    case (Inl err)
    then show ?thesis by (simp add: g)
  next
    case (Inr hs)
    show ?thesis
    proof (cases "apply_limits hs m")
      case (Inl err)
      with Inr show ?thesis by (simp add: g)
    next
      case lim: (Inr lh)
      obtain lg1 hs' where lh: "lh = (lg1, hs')" by (cases lh)
      obtain lg2 c' r where f: "fetch_superiors e self hs' = (lg2, c', r)"
        by (cases "fetch_superiors e self hs'") auto
      from fetch_superiors_failed_superiors[of e self hs'] f
      have "failed_superiors c' = failed_superiors self" by simp
      with Inr lim lh f show ?thesis by (simp add: g)
    qed
  qed
qed

text \<open>
  \<^verbatim>\<open>validate_by_superior_statement\<close> never writes to \<^verbatim>\<open>verified_by_superiors\<close> or
  \<^verbatim>\<open>failed_by_superiors\<close>.
\<close>

lemma validate_by_superior_statement_by_superiors_untouched:
  "verified_by_superiors (fst (snd (validate_by_superior_statement e self tok ec))) =
     verified_by_superiors self
   \<and> failed_by_superiors (fst (snd (validate_by_superior_statement e self tok ec))) =
     failed_by_superiors self"
proof -
  obtain bound ec' r where t: "try_block e self tok ec = (bound, ec', r)"
    by (cases "try_block e self tok ec") auto
  show ?thesis
  proof (cases bound)
    case None
    with t show ?thesis by (simp add: validate_by_superior_statement_def)
  next
    case (Some p)
    with t show ?thesis
      by (cases r)
        (simp_all add: validate_by_superior_statement_def dict_set_def bindE_def split: sum.splits)
  qed
qed

text \<open>
  Claim C1 on the code. When the statement token cannot be decoded, the \<^verbatim>\<open>except\<close>
  clause sets \<^verbatim>\<open>is_valid = False\<close>, and the assignment after the \<^verbatim>\<open>try\<close> block
  reads the local \<^verbatim>\<open>payload\<close>, which was never bound: \<^verbatim>\<open>UnboundLocalError\<close> leaves
  the call. When the payload decodes and has no \<^verbatim>\<open>iss\<close>, the same assignment raises
  \<^verbatim>\<open>KeyError\<close>.
\<close>

theorem validate_by_superior_statement_undecodable_token_raises:
  "fst (validate_by_superior_statement example_env example_leaf ''not a token'' example_ta) =
     Inl UnboundLocalError
   \<and> fst (validate_by_superior_statement example_env example_leaf ''stmt_no_iss.jwt'' example_ta) =
     Inl KeyError"
  by code_simp

text \<open>
  Claim C2 on the code. \<^verbatim>\<open>validate_by_superior_statement\<close> stores the statement's
  payload under its issuer in \<^verbatim>\<open>verified_superiors\<close> when the validation succeeds and
  in \<^verbatim>\<open>failed_superiors\<close> when it fails; it leaves \<^verbatim>\<open>verified_by_superiors\<close> and
  \<^verbatim>\<open>failed_by_superiors\<close> empty. \<^verbatim>\<open>validate_by_superiors\<close> stores the boolean in
  \<^verbatim>\<open>verified_by_superiors\<close> under the superior's \<^verbatim>\<open>sub\<close>, also when it is
  \<^verbatim>\<open>False\<close>.
\<close>

theorem validate_by_superior_statement_records_in_superiors:
  "fst (validate_by_superior_statement example_env example_leaf ''stmt.jwt'' example_ta) = Inr True
   \<and> verified_superiors (fst (snd (validate_by_superior_statement example_env example_leaf
         ''stmt.jwt'' example_ta))) = [(JStr ''https://ta.example/'', Statement stmt_payload)]
   \<and> verified_by_superiors (fst (snd (validate_by_superior_statement example_env example_leaf
         ''stmt.jwt'' example_ta))) = []
   \<and> fst (validate_by_superior_statement example_env example_leaf ''stmt_other_key.jwt'' example_ta2)
       = Inr False
   \<and> failed_superiors (fst (snd (validate_by_superior_statement example_env example_leaf
         ''stmt_other_key.jwt'' example_ta2))) =
       [(JStr ''https://ta2.example/'', Statement stmt_other_key_payload)]
   \<and> failed_by_superiors (fst (snd (validate_by_superior_statement example_env example_leaf
         ''stmt_other_key.jwt'' example_ta2))) = []
   \<and> verified_by_superiors (fst (snd (validate_by_superiors example_env example_leaf [example_ta2])))
       = [(JStr ''https://ta2.example/'', False)]
   \<and> failed_by_superiors (fst (snd (validate_by_superiors example_env example_leaf [example_ta2])))
       = []"
  by code_simp

text \<open>
  Claim C3 on the code. For a superior without federation metadata,
  \<^verbatim>\<open>validate_by_superiors\<close> logs the warning and raises \<^verbatim>\<open>AttributeError\<close>; the
  superior after it, which validates when it is processed alone, is not reached.
\<close>

theorem validate_by_superiors_missing_endpoint_raises:
  "validate_by_superiors example_env example_leaf [example_no_metadata, example_ta] =
     ([(WARNING,
        [Lit ''Missing federation_api_endpoint in federation_entity metadata for '',
         Val (JStr ''https://leaf.example/''), Lit '' by '',
         Val (JStr ''https://im.example/''), Lit ''.''])],
      example_leaf, Inl AttributeError)
   \<and> snd (snd (validate_by_superiors example_env example_leaf [example_ta])) =
       Inr [(JStr ''https://ta.example/'', True)]"
  by code_simp

text \<open>
  Claim C4 on the code. In a batch of two hints where the first configuration names a
  kid it does not publish, \<^verbatim>\<open>get_superiors\<close> raises \<^verbatim>\<open>UnknownKid\<close>: nothing is
  stored in \<^verbatim>\<open>failed_superiors\<close>, and the second configuration, which is verified
  when it is fetched alone, is not stored in \<^verbatim>\<open>verified_superiors\<close>.
\<close>

theorem get_superiors_failed_validation_aborts:
  "snd (snd (get_superiors example_env example_leaf
       (JArr [JStr ''https://bad.example/'', JStr ''https://ta.example/'']) 0)) = Inl UnknownKid
   \<and> failed_superiors (fst (snd (get_superiors example_env example_leaf
       (JArr [JStr ''https://bad.example/'', JStr ''https://ta.example/'']) 0))) = []
   \<and> verified_superiors (fst (snd (get_superiors example_env example_leaf
       (JArr [JStr ''https://bad.example/'', JStr ''https://ta.example/'']) 0))) = []
   \<and> map fst (verified_superiors (fst (snd (get_superiors example_env example_leaf
       (JArr [JStr ''https://ta.example/'']) 0)))) = [JStr ''https://ta.example/'']"
  by code_simp

end
